theory Spec2Isabelle
  imports Complex_Main "HOL-Library.Stream"
begin

section \<open>The dust sphere of \<^verbatim>\<open>src/dust_sphere_animation.jsx\<close>\<close>

text \<open>
  The component \<^verbatim>\<open>DustSphereApp\<close> builds three typed arrays (positions, normals,
  randoms) in its mount effect, and then mutates the positions once per animation frame.

  Numbers. A JavaScript number is an IEEE double. It is idealised here as a
  \<^typ>\<open>real\<close>: \<^verbatim>\<open>Math.sin\<close>, \<^verbatim>\<open>Math.cos\<close>, \<^verbatim>\<open>Math.acos\<close>, \<^verbatim>\<open>Math.sqrt\<close> and
  \<^verbatim>\<open>Math.PI\<close> are \<^const>\<open>sin\<close>, \<^const>\<open>cos\<close>, \<^const>\<open>arccos\<close>, \<^const>\<open>sqrt\<close> and
  \<^const>\<open>pi\<close>, and the rounding of double arithmetic is not modelled.

  Cells. A \<^verbatim>\<open>Float32Array\<close> cell holds a single-precision value, and a store rounds
  to it. The store of a jitter factor (line 99) is modelled with this rounding, since
  whether a stored factor stays below 1 depends on it. The cells of the coordinates
  (lines 89-97 and 154-156) are kept exact: every statement about normals and positions
  is a statement in exact arithmetic, from which the contents of the program's cells
  differ by the rounding of each store.

  \<^verbatim>\<open>particleCount\<close> is a \<^typ>\<open>nat\<close>: the arrays are allocated with
  \<^verbatim>\<open>new Float32Array(particleCount * 3)\<close>, which needs a non-negative integer.

  \<^verbatim>\<open>Math.random()\<close> is a global generator; it is an explicit \<^typ>\<open>real stream\<close> of
  the values it is going to return, each call taking the head.
\<close>

subsection \<open>Single-precision cells\<close>

text \<open>
  The conversion of a number to single precision is the language's, not the
  repository's: round to the nearest value with a 24-bit significand, ties to the even
  significand, with the spacing \<open>2 ^ (e - 23)\<close> in the binade \<open>[2 ^ e, 2 ^ (e + 1))\<close> and
  the subnormal spacing \<open>2 ^ (- 149)\<close> below \<open>2 ^ (- 126)\<close>. A magnitude of \<open>2 ^ 128\<close>
  or more would be stored as an infinity, which no real is; the only values stored
  through \<open>fround\<close> below are the generator's draws, in \<open>[0, 1)\<close>.
\<close>

definition round_even :: "real \<Rightarrow> int" where
  "round_even y =
     (let n = \<lfloor>y\<rfloor>; d = y - of_int n
      in if d < 1 / 2 then n else if 1 / 2 < d then n + 1 else if even n then n else n + 1)"

definition f32_exponent :: "real \<Rightarrow> int" where
  "f32_exponent x = max (- 126) \<lfloor>log 2 \<bar>x\<bar>\<rfloor>"

definition fround :: "real \<Rightarrow> real" where
  "fround x =
     (if x = 0 then 0
      else of_int (round_even (x / 2 powi (f32_exponent x - 23))) * 2 powi (f32_exponent x - 23))"

subsection \<open>Component properties (lines 23-29)\<close>

record props =
  particleCount :: nat
  baseRadius :: real
  pulseAmplitude :: real
  pulseSpeed :: real
  rotationSpeed :: real

definition default_props :: props where
  "default_props =
     \<lparr>particleCount = 2000, baseRadius = 5, pulseAmplitude = 0.6, pulseSpeed = 1.05,
      rotationSpeed = 0.65\<rparr>"

subsection \<open>Buffers and scene objects\<close>

text \<open>
  Modelled from the spec: three.js's \<^verbatim>\<open>BufferAttribute\<close> is a library class, not under
  \<^verbatim>\<open>src/\<close>. Its constructor keeps the array and the item size and sets \<^verbatim>\<open>count\<close> to
  the number of \<^verbatim>\<open>itemSize\<close>-component entries of the array (what the spec calls the
  buffer's reported length); \<^verbatim>\<open>needsUpdate\<close> is a flag the renderer reads.
\<close>

record buffer_attribute =
  array :: "real list"
  itemSize :: nat
  count :: nat
  needsUpdate :: bool

definition BufferAttribute :: "real list \<Rightarrow> nat \<Rightarrow> buffer_attribute" where
  "BufferAttribute arr n =
     \<lparr>array = arr, itemSize = n, count = length arr div n, needsUpdate = False\<rparr>"

text \<open>The three attributes set on the geometry at lines 103-107.\<close>

record geometry =
  position :: buffer_attribute
  normalVec :: buffer_attribute
  aRandom :: buffer_attribute

text \<open>Of the \<^verbatim>\<open>THREE.Points\<close> object the component only writes the rotation.\<close>

record points =
  rotation_x :: real
  rotation_y :: real

text \<open>The object passed to \<^verbatim>\<open>setReadyInfo\<close> at line 125.\<close>

record ready_info =
  ri_particleCount :: nat
  ri_geometry :: "geometry option"
  ri_points :: "points option"

text \<open>
  What lives across frames: the geometry, the refs \<^verbatim>\<open>pointsRef\<close> and
  \<^verbatim>\<open>runningRef\<close>, and the React state \<^verbatim>\<open>running\<close> and \<^verbatim>\<open>readyInfo\<close>. A null
  reference is \<^const>\<open>None\<close>.
\<close>

record session =
  geom :: geometry
  pointsRef :: "points option"
  runningRef :: bool
  running :: bool
  readyInfo :: "ready_info option"

subsection \<open>Building the particle buffers (lines 78-100)\<close>

text \<open>
  The three arrays of the layout loop. A write \<^verbatim>\<open>a[k] = v\<close> is \<open>a[k := v]\<close>; both
  ignore an index that is out of range. The jitter factor is stored rounded to single
  precision, the coordinates are stored exact.
\<close>

record buffers =
  positions :: "real list"
  normals :: "real list"
  randoms :: "real list"

text \<open>One iteration of the loop at line 82, with the generator threaded through.\<close>

definition layout_body :: "props \<Rightarrow> nat \<Rightarrow> buffers \<times> real stream \<Rightarrow> buffers \<times> real stream" where
  "layout_body p i st =
     (let b = fst st; rng = snd st;
          i3 = i * 3;
          phi = arccos (1 - 2 * (real i + 0.5) / real (particleCount p));
          theta = pi * (1 + sqrt 5) * (real i + 0.5);
          x = sin phi * cos theta;
          y = sin phi * sin theta;
          z = cos phi;
          nrm = (normals b)[i3 := x, i3 + 1 := y, i3 + 2 := z];
          jitter = (shd rng - 0.5) * 0.02;
          rng1 = stl rng;
          pos = (positions b)[i3 := x * (baseRadius p + jitter),
                              i3 + 1 := y * (baseRadius p + jitter),
                              i3 + 2 := z * (baseRadius p + jitter)];
          rnd = (randoms b)[i := fround (shd rng1)];
          rng2 = stl rng1
      in (\<lparr>positions = pos, normals = nrm, randoms = rnd\<rparr>, rng2))"

function layout_loop :: "props \<Rightarrow> nat \<Rightarrow> buffers \<times> real stream \<Rightarrow> buffers \<times> real stream" where
  "layout_loop p i st =
     (if i < particleCount p then layout_loop p (i + 1) (layout_body p i st) else st)"
  by pat_completeness auto
termination
  by (relation "measure (\<lambda>(p, i, st). particleCount p - i)") auto

declare layout_loop.simps [simp del]

text \<open>Lines 78-100: allocate the zero-filled arrays and run the loop from 0.\<close>

definition build_buffers :: "props \<Rightarrow> real stream \<Rightarrow> buffers \<times> real stream" where
  "build_buffers p rng =
     layout_loop p 0
       (\<lparr>positions = replicate (particleCount p * 3) 0,
         normals = replicate (particleCount p * 3) 0,
         randoms = replicate (particleCount p) 0\<rparr>, rng)"

text \<open>
  The first run of the mount effect (lines 44-132) as far as the particle set goes, for
  a component whose mount node exists: the buffers become the geometry's attributes, the
  points object is stored in \<^verbatim>\<open>pointsRef\<close>. The refs and the state have their initial
  values, declared at lines 30-37: running, and not yet ready. Renderer, camera, lights
  and controls hold no particle data and are left out.
\<close>

definition mount :: "props \<Rightarrow> real stream \<Rightarrow> session" where
  "mount p rng =
     (let b = fst (build_buffers p rng);
          g = \<lparr>position = BufferAttribute (positions b) 3,
               normalVec = BufferAttribute (normals b) 3,
               aRandom = BufferAttribute (randoms b) 1\<rparr>
      in \<lparr>geom = g, pointsRef = Some \<lparr>rotation_x = 0, rotation_y = 0\<rparr>,
          runningRef = True, running = True, readyInfo = None\<rparr>)"

text \<open>
  The callback of \<^verbatim>\<open>setTimeout\<close> at lines 124-132: it publishes the particle count
  and the handles of the geometry and of the points object built by the effect. The
  handles alias the live objects, the record holds their values at that moment:
  \<^verbatim>\<open>quickCheck\<close> reads through them only the count of the position attribute, which
  is set when the attribute is constructed and which no event changes, and whether the
  points handle is null. The callback is that of the current activation: the points
  object it passes is the one \<^verbatim>\<open>pointsRef\<close> holds until the cleanup of that
  activation.
\<close>

definition publish_ready :: "props \<Rightarrow> session \<Rightarrow> session" where
  "publish_ready p s =
     s\<lparr>readyInfo := Some \<lparr>ri_particleCount = particleCount p,
                           ri_geometry = Some (geom s),
                           ri_points = pointsRef s\<rparr>\<rparr>"

text \<open>
  A change of a property runs the cleanup of the effect and then the effect again
  (dependencies at line 202). Of the session, the cleanup (lines 184-201) clears
  \<^verbatim>\<open>pointsRef\<close> only; disposing of the geometry frees what the renderer holds, not the
  arrays. The effect then builds new buffers from the new properties and further draws
  and stores the new points object. \<^verbatim>\<open>runningRef\<close> and the states \<^verbatim>\<open>running\<close> and
  \<^verbatim>\<open>readyInfo\<close> belong to the component (lines 34-37): they are initialised once, and
  neither the cleanup nor the effect resets them.
\<close>

definition cleanup :: "session \<Rightarrow> session" where
  "cleanup s = s\<lparr>pointsRef := None\<rparr>"

definition reactivate :: "props \<Rightarrow> real stream \<Rightarrow> session \<Rightarrow> session" where
  "reactivate p rng s =
     (let b = fst (build_buffers p rng);
          g = \<lparr>position = BufferAttribute (positions b) 3,
               normalVec = BufferAttribute (normals b) 3,
               aRandom = BufferAttribute (randoms b) 1\<rparr>
      in s\<lparr>geom := g, pointsRef := Some \<lparr>rotation_x = 0, rotation_y = 0\<rparr>\<rparr>)"

subsection \<open>The frame update (lines 136-169)\<close>

text \<open>
  One iteration of the loop at line 148 on the position array. The three coordinates
  are stored exact.
\<close>

definition animate_body :: "props \<Rightarrow> real \<Rightarrow> real \<Rightarrow> real list \<Rightarrow> real list \<Rightarrow> nat \<Rightarrow> real list \<Rightarrow> real list" where
  "animate_body p elapsed pulse nrm rnd i pos =
     (let i3 = i * 3;
          r = rnd ! i * 0.8 + 0.2;
          localPulse = pulse * r;
          noise = sin (elapsed * (0.7 + r * 2.0) + real i) * 0.005;
          radius = baseRadius p + localPulse
      in pos[i3 := nrm ! i3 * (radius + noise),
             i3 + 1 := nrm ! (i3 + 1) * (radius + noise),
             i3 + 2 := nrm ! (i3 + 2) * (radius + noise)])"

function animate_loop :: "props \<Rightarrow> real \<Rightarrow> real \<Rightarrow> real list \<Rightarrow> real list \<Rightarrow> nat \<Rightarrow> real list \<Rightarrow> real list" where
  "animate_loop p elapsed pulse nrm rnd i pos =
     (if i < particleCount p
      then animate_loop p elapsed pulse nrm rnd (i + 1) (animate_body p elapsed pulse nrm rnd i pos)
      else pos)"
  by pat_completeness auto
termination
  by (relation "measure (\<lambda>(p, elapsed, pulse, nrm, rnd, i, pos). particleCount p - i)") auto

declare animate_loop.simps [simp del]

text \<open>Lines 140-159: the branch taken when \<^verbatim>\<open>runningRef.current\<close> is true.\<close>

definition update_positions :: "props \<Rightarrow> real \<Rightarrow> geometry \<Rightarrow> geometry" where
  "update_positions p elapsed g =
     (let pulse = sin (elapsed * pulseSpeed p) * pulseAmplitude p;
          pos = array (position g);
          nrm = array (normalVec g);
          rnd = array (aRandom g);
          pos' = animate_loop p elapsed pulse nrm rnd 0 pos
      in g\<lparr>position := (position g)\<lparr>array := pos', needsUpdate := True\<rparr>\<rparr>)"

text \<open>Lines 161-165: the rotation written when \<^verbatim>\<open>pointsRef.current\<close> is not null.\<close>

definition rotate_cloud :: "props \<Rightarrow> real \<Rightarrow> points option \<Rightarrow> points option" where
  "rotate_cloud p elapsed ref =
     (case ref of
        None \<Rightarrow> None
      | Some pts \<Rightarrow>
          Some (pts\<lparr>rotation_y := elapsed * rotationSpeed p,
                    rotation_x := elapsed * (rotationSpeed p * 0.18)\<rparr>))"

text \<open>
  One call of \<^verbatim>\<open>animate\<close>, at the elapsed time read from the clock at line 138.
  Scheduling the next frame, the camera controls and the rendering do not touch the
  session.
\<close>

definition animate :: "props \<Rightarrow> real \<Rightarrow> session \<Rightarrow> session" where
  "animate p elapsed s =
     (let s1 = (if runningRef s then s\<lparr>geom := update_positions p elapsed (geom s)\<rparr> else s)
      in s1\<lparr>pointsRef := rotate_cloud p elapsed (pointsRef s1)\<rparr>)"

subsection \<open>The controls (lines 205-224)\<close>

definition toggleRunning :: "session \<Rightarrow> session" where
  "toggleRunning s = s\<lparr>runningRef := \<not> running s, running := \<not> running s\<rparr>"

text \<open>
  What \<^verbatim>\<open>quickCheck\<close> shows: the not-ready alert of line 214, or the message of
  line 221 with its four interpolated values (\<^verbatim>\<open>posCount\<close> is \<^verbatim>\<open>null\<close> when the
  attribute is missing).
\<close>

datatype alert =
  NotReady
  | Report nat "nat option" bool bool

definition quickCheck :: "session \<Rightarrow> alert" where
  "quickCheck s =
     (case readyInfo s of
        None \<Rightarrow> NotReady
      | Some info \<Rightarrow>
          (let posAttr = map_option position (ri_geometry info);
               posCount = map_option count posAttr;
               okCount = (posCount = Some (ri_particleCount info))
           in Report (ri_particleCount info) posCount okCount (ri_points info \<noteq> None)))"

subsection \<open>Runs of a mounted component\<close>

text \<open>
  After the first run of the mount effect, and until a property changes, the browser
  calls \<^verbatim>\<open>animate\<close> once per frame, the timer callback once, and the operator may
  press the pause button at any moment. \<open>run\<close> is such a first activation.
\<close>

datatype event = Frame real | Toggle | Ready

fun step :: "props \<Rightarrow> session \<Rightarrow> event \<Rightarrow> session" where
  "step p s (Frame elapsed) = animate p elapsed s"
| "step p s Toggle = toggleRunning s"
| "step p s Ready = publish_ready p s"

definition run :: "props \<Rightarrow> real stream \<Rightarrow> event list \<Rightarrow> session" where
  "run p rng evs = foldl (step p) (mount p rng) evs"

text \<open>The three components of entry \<open>i\<close> of a flat array taken as one vector.\<close>

definition vec3 :: "real list \<Rightarrow> nat \<Rightarrow> real \<times> real \<times> real" where
  "vec3 a i = (a ! (i * 3), a ! (i * 3 + 1), a ! (i * 3 + 2))"

definition scale3 :: "real \<Rightarrow> real \<times> real \<times> real \<Rightarrow> real \<times> real \<times> real" where
  "scale3 k v = (case v of (x, y, z) \<Rightarrow> (k * x, k * y, k * z))"

definition norm3 :: "real \<times> real \<times> real \<Rightarrow> real" where
  "norm3 v = (case v of (x, y, z) \<Rightarrow> sqrt (x\<^sup>2 + y\<^sup>2 + z\<^sup>2))"

subsection \<open>The spec's formulas\<close>

text \<open>
  Section 4.1 of the spec gives entry \<open>i\<close> of the layout in closed form: the polar and
  the azimuthal angle, the unit vector built from them, and the one-time jitter. These
  definitions follow the spec's words; the theorems below compare them with what
  \<^const>\<open>layout_loop\<close> leaves in the arrays. The generator is called twice per
  iteration, so iteration \<open>i\<close> takes the draws \<open>2 * i\<close> (the jitter) and \<open>2 * i + 1\<close>
  (the jitter factor, stored in single precision).
\<close>

definition layout_phi :: "props \<Rightarrow> nat \<Rightarrow> real" where
  "layout_phi p i = arccos (1 - 2 * (real i + 0.5) / real (particleCount p))"

definition layout_theta :: "nat \<Rightarrow> real" where
  "layout_theta i = pi * (1 + sqrt 5) * (real i + 0.5)"

definition layout_normal :: "props \<Rightarrow> nat \<Rightarrow> real \<times> real \<times> real" where
  "layout_normal p i =
     (sin (layout_phi p i) * cos (layout_theta i),
      sin (layout_phi p i) * sin (layout_theta i),
      cos (layout_phi p i))"

definition layout_jitter :: "real stream \<Rightarrow> nat \<Rightarrow> real" where
  "layout_jitter rng i = (rng !! (2 * i) - 0.5) * 0.02"

text \<open>
  Section 4.2 of the spec, for the frame at time \<open>t\<close> and the point \<open>i\<close> with jitter
  factors \<open>rnd\<close>: the rescaled factor \<open>r\<close>, the radius (base radius plus local pulse)
  and the noise, each as a function of the time. Lemma \<open>animate_loop_vec3\<close> below shows
  that these are the values the loop at lines 148-157 works with.
\<close>

definition scale_factor :: "real list \<Rightarrow> nat \<Rightarrow> real" where
  "scale_factor rnd i = rnd ! i * 0.8 + 0.2"

definition point_radius :: "props \<Rightarrow> real list \<Rightarrow> real \<Rightarrow> nat \<Rightarrow> real" where
  "point_radius p rnd t i =
     baseRadius p + sin (t * pulseSpeed p) * pulseAmplitude p * scale_factor rnd i"

definition point_noise :: "real list \<Rightarrow> real \<Rightarrow> nat \<Rightarrow> real" where
  "point_noise rnd t i = sin (t * (0.7 + scale_factor rnd i * 2.0) + real i) * 0.005"

subsection \<open>Sessions of a mounted component\<close>

text \<open>
  What the mount effect establishes and no later event changes: the three arrays have
  the lengths they were allocated with, the position attribute counts
  \<^verbatim>\<open>particleCount\<close> entries, and \<^verbatim>\<open>pointsRef\<close> holds the points object.
\<close>

definition allocated :: "props \<Rightarrow> session \<Rightarrow> bool" where
  "allocated p s \<longleftrightarrow>
     length (array (position (geom s))) = particleCount p * 3 \<and>
     length (array (normalVec (geom s))) = particleCount p * 3 \<and>
     length (array (aRandom (geom s))) = particleCount p \<and>
     count (position (geom s)) = particleCount p \<and>
     pointsRef s \<noteq> None"

section \<open>Rounding to single precision\<close>

lemma round_even_bounds: "\<lfloor>y\<rfloor> \<le> round_even y" "round_even y \<le> \<lfloor>y\<rfloor> + 1"
  by (simp_all add: round_even_def Let_def)

lemma f32_exponent_below_one:
  assumes "0 < x" and "x < 1"
  shows "f32_exponent x \<le> - 1"
proof -
  from assms have "log 2 \<bar>x\<bar> < 0"
    by simp
  then have "\<lfloor>log 2 \<bar>x\<bar>\<rfloor> \<le> - 1"
    by (simp add: floor_le_iff)
  then show ?thesis
    unfolding f32_exponent_def by (intro max.boundedI) simp_all
qed

lemma fround_unit_interval:
  assumes "0 \<le> x" and "x < 1"
  shows "0 \<le> fround x" and "fround x \<le> 1"
proof -
  have "0 \<le> fround x \<and> fround x \<le> 1"
  proof (cases "x = 0")
    case True
    then show ?thesis
      by (simp add: fround_def)
  next
    case False
    with assms have pos: "0 < x"
      by simp
    define k where "k = nat (23 - f32_exponent x)"
    have e: "f32_exponent x - 23 = - int k"
      using f32_exponent_below_one [OF pos assms(2)] by (simp add: k_def)
    have q: "2 powi (f32_exponent x - 23) = 1 / (2::real) ^ k"
      by (simp add: e power_int_minus_divide)
    let ?y = "x * 2 ^ k"
    have y0: "0 \<le> ?y"
      using assms(1) by simp
    have "?y < 2 ^ k"
      using assms(2) by simp
    then have "?y < of_int (2 ^ k)"
      by simp
    then have "\<lfloor>?y\<rfloor> < 2 ^ k"
      by (simp only: floor_less_iff)
    with round_even_bounds(2) [of ?y] have up: "round_even ?y \<le> 2 ^ k"
      by linarith
    from y0 have "0 \<le> \<lfloor>?y\<rfloor>"
      by simp
    with round_even_bounds(1) [of ?y] have lo: "0 \<le> round_even ?y"
      by linarith
    from up have "(of_int (round_even ?y) :: real) \<le> of_int (2 ^ k)"
      by (simp only: of_int_le_iff)
    then have "(of_int (round_even ?y) :: real) / 2 ^ k \<le> 1"
      by (simp add: divide_le_eq)
    moreover from lo have "0 \<le> (of_int (round_even ?y) :: real) / 2 ^ k"
      by simp
    ultimately show ?thesis
      using False by (simp add: fround_def q)
  qed
  then show "0 \<le> fround x" and "fround x \<le> 1"
    by simp_all
qed

lemma f32_exponent_upper_half:
  assumes "1 / 2 \<le> x" and "x < 1"
  shows "f32_exponent x = - 1"
proof -
  from assms have "\<lfloor>log 2 \<bar>x\<bar>\<rfloor> = - 1"
    by (simp add: floor_log_eq_powr_iff powr_minus_divide)
  then show ?thesis
    by (simp add: f32_exponent_def)
qed

lemma fround_upper_half:
  assumes "1 / 2 \<le> x" and "x < 1"
  shows "fround x = of_int (round_even (x * 2 ^ 24)) / 2 ^ 24"
proof -
  from assms have "x \<noteq> 0"
    by simp
  then show ?thesis
    by (simp add: fround_def f32_exponent_upper_half [OF assms] power_int_minus_divide)
qed

lemma fround_near_one: "fround (1 - 1 / 2 ^ 26) = 1"
  by (simp add: fround_upper_half round_even_def Let_def)

lemma fround_half: "fround (1 / 2) = 1 / 2"
  by (simp add: fround_upper_half round_even_def Let_def)

section \<open>The layout loop\<close>

lemma layout_body_length [simp]:
  "length (positions (fst (layout_body p i st))) = length (positions (fst st))"
  "length (normals (fst (layout_body p i st))) = length (normals (fst st))"
  "length (randoms (fst (layout_body p i st))) = length (randoms (fst st))"
  by (simp_all add: layout_body_def Let_def)

lemma layout_body_rng [simp]: "snd (layout_body p i st) = stl (stl (snd st))"
  by (simp add: layout_body_def Let_def)

lemma layout_loop_length [simp]:
  "length (positions (fst (layout_loop p i st))) = length (positions (fst st))"
  "length (normals (fst (layout_loop p i st))) = length (normals (fst st))"
  "length (randoms (fst (layout_loop p i st))) = length (randoms (fst st))"
proof -
  have "length (positions (fst (layout_loop p i st))) = length (positions (fst st)) \<and>
        length (normals (fst (layout_loop p i st))) = length (normals (fst st)) \<and>
        length (randoms (fst (layout_loop p i st))) = length (randoms (fst st))"
  proof (induction p i st rule: layout_loop.induct)
    case (1 p i st)
    then show ?case
      by (subst (1 2 3) layout_loop.simps) simp
  qed
  then show
    "length (positions (fst (layout_loop p i st))) = length (positions (fst st))"
    "length (normals (fst (layout_loop p i st))) = length (normals (fst st))"
    "length (randoms (fst (layout_loop p i st))) = length (randoms (fst st))"
    by simp_all
qed

text \<open>One iteration writes entry \<open>i\<close> of each array and leaves the others.\<close>

lemma layout_body_normals:
  assumes "length (normals (fst st)) = particleCount p * 3"
    and "j < particleCount p" and "i < particleCount p"
  shows "vec3 (normals (fst (layout_body p i st))) j =
           (if j = i then layout_normal p i else vec3 (normals (fst st)) j)"
  using assms
  by (auto simp add: layout_body_def Let_def vec3_def layout_normal_def layout_phi_def
      layout_theta_def nth_list_update)

lemma layout_body_positions:
  assumes "length (positions (fst st)) = particleCount p * 3"
    and "j < particleCount p" and "i < particleCount p"
  shows "vec3 (positions (fst (layout_body p i st))) j =
           (if j = i then scale3 (baseRadius p + layout_jitter (snd st) 0) (layout_normal p i)
            else vec3 (positions (fst st)) j)"
  using assms
  by (auto simp add: layout_body_def Let_def vec3_def scale3_def layout_jitter_def
      layout_normal_def layout_phi_def layout_theta_def nth_list_update mult.commute)

lemma layout_body_randoms:
  assumes "length (randoms (fst st)) = particleCount p"
    and "j < particleCount p" and "i < particleCount p"
  shows "randoms (fst (layout_body p i st)) ! j =
           (if j = i then fround (snd st !! 1) else randoms (fst st) ! j)"
  using assms
  by (auto simp add: layout_body_def Let_def nth_list_update)

text \<open>Each iteration takes two draws, so the later ones see the stream two further.\<close>

lemma snth_two_draws:
  assumes "Suc i \<le> j"
  shows "stl (stl s) !! (2 * (j - Suc i)) = s !! (2 * (j - i))"
proof -
  from assms have "2 * (j - i) = Suc (Suc (2 * (j - Suc i)))"
    by simp
  then show ?thesis
    by simp
qed

text \<open>
  The loop started at \<open>i\<close> fills the entries from \<open>i\<close> on and keeps those below; by
  computation induction.
\<close>

lemma layout_loop_normals:
  assumes "length (normals (fst st)) = particleCount p * 3" and "j < particleCount p"
  shows "vec3 (normals (fst (layout_loop p i st))) j =
           (if i \<le> j then layout_normal p j else vec3 (normals (fst st)) j)"
  using assms
proof (induction p i st rule: layout_loop.induct)
  case (1 p i st)
  show ?case
  proof (cases "i < particleCount p")
    case True
    with 1 show ?thesis
      by (subst layout_loop.simps)
        (auto simp: layout_body_normals not_less_eq_eq dest: le_antisym)
  next
    case False
    with 1 show ?thesis
      by (subst layout_loop.simps) simp
  qed
qed

lemma layout_loop_positions:
  assumes "length (positions (fst st)) = particleCount p * 3" and "j < particleCount p"
  shows "vec3 (positions (fst (layout_loop p i st))) j =
           (if i \<le> j
            then scale3 (baseRadius p + layout_jitter (snd st) (j - i)) (layout_normal p j)
            else vec3 (positions (fst st)) j)"
  using assms
proof (induction p i st rule: layout_loop.induct)
  case (1 p i st)
  show ?case
  proof (cases "i < particleCount p")
    case True
    with 1 show ?thesis
      by (subst layout_loop.simps)
        (auto simp: layout_body_positions not_less_eq_eq layout_jitter_def snth_two_draws
          dest: le_antisym)
  next
    case False
    with 1 show ?thesis
      by (subst layout_loop.simps) simp
  qed
qed

lemma layout_loop_randoms:
  assumes "length (randoms (fst st)) = particleCount p" and "j < particleCount p"
  shows "randoms (fst (layout_loop p i st)) ! j =
           (if i \<le> j then fround (snd st !! (2 * (j - i) + 1)) else randoms (fst st) ! j)"
  using assms
proof (induction p i st rule: layout_loop.induct)
  case (1 p i st)
  show ?case
  proof (cases "i < particleCount p")
    case True
    with 1 show ?thesis
      by (subst layout_loop.simps)
        (auto simp: layout_body_randoms not_less_eq_eq snth_two_draws dest: le_antisym)
  next
    case False
    with 1 show ?thesis
      by (subst layout_loop.simps) simp
  qed
qed

section \<open>The frame loop\<close>

lemma animate_body_length [simp]:
  "length (animate_body p elapsed pulse nrm rnd i pos) = length pos"
  by (simp add: animate_body_def Let_def)

lemma animate_loop_length [simp]:
  "length (animate_loop p elapsed pulse nrm rnd i pos) = length pos"
proof (induction p elapsed pulse nrm rnd i pos rule: animate_loop.induct)
  case (1 p elapsed pulse nrm rnd i pos)
  then show ?case
    by (subst animate_loop.simps) simp
qed

lemma animate_body_vec3:
  assumes "length pos = particleCount p * 3"
    and "j < particleCount p" and "i < particleCount p"
  shows "vec3 (animate_body p t (sin (t * pulseSpeed p) * pulseAmplitude p) nrm rnd i pos) j =
           (if j = i then scale3 (point_radius p rnd t i + point_noise rnd t i) (vec3 nrm i)
            else vec3 pos j)"
  using assms
  by (auto simp add: animate_body_def Let_def vec3_def scale3_def point_radius_def point_noise_def
      scale_factor_def nth_list_update mult.commute)

lemma animate_loop_vec3:
  assumes "length pos = particleCount p * 3" and "j < particleCount p"
  shows "vec3 (animate_loop p t (sin (t * pulseSpeed p) * pulseAmplitude p) nrm rnd i pos) j =
           (if i \<le> j then scale3 (point_radius p rnd t j + point_noise rnd t j) (vec3 nrm j)
            else vec3 pos j)"
  using assms
proof (induction p t "sin (t * pulseSpeed p) * pulseAmplitude p" nrm rnd i pos
    rule: animate_loop.induct)
  case (1 p t nrm rnd i pos)
  show ?case
  proof (cases "i < particleCount p")
    case True
    with 1 show ?thesis
      by (subst animate_loop.simps)
        (auto simp: animate_body_vec3 not_less_eq_eq dest: le_antisym)
  next
    case False
    with 1 show ?thesis
      by (subst animate_loop.simps) simp
  qed
qed

text \<open>Two flat arrays of \<open>n\<close> entries with the same vectors are the same array.\<close>

lemma vec3_ext:
  assumes "length a = n * 3" and "length b = n * 3"
    and "\<And>j. j < n \<Longrightarrow> vec3 a j = vec3 b j"
  shows "a = b"
proof (rule nth_equalityI)
  show "length a = length b"
    using assms by simp
next
  fix k
  assume "k < length a"
  define j where "j = k div 3"
  define c where "c = k mod 3"
  have k: "k = j * 3 + c" and c: "c = 0 \<or> c = 1 \<or> c = 2"
    unfolding j_def c_def by arith+
  from \<open>k < length a\<close> have "j < n"
    using assms(1) k by simp
  then have "vec3 a j = vec3 b j"
    by (rule assms(3))
  then have "a ! (j * 3 + c) = b ! (j * 3 + c)"
    using c by (auto simp: vec3_def)
  then show "a ! k = b ! k"
    unfolding k .
qed

section \<open>Sessions\<close>

lemma build_buffers_length [simp]:
  "length (positions (fst (build_buffers p rng))) = particleCount p * 3"
  "length (normals (fst (build_buffers p rng))) = particleCount p * 3"
  "length (randoms (fst (build_buffers p rng))) = particleCount p"
  by (simp_all add: build_buffers_def)

lemma build_buffers_normals:
  "i < particleCount p \<Longrightarrow> vec3 (normals (fst (build_buffers p rng))) i = layout_normal p i"
  by (simp add: build_buffers_def layout_loop_normals)

lemma build_buffers_positions:
  "i < particleCount p \<Longrightarrow>
   vec3 (positions (fst (build_buffers p rng))) i =
     scale3 (baseRadius p + layout_jitter rng i) (layout_normal p i)"
  by (simp add: build_buffers_def layout_loop_positions)

lemma build_buffers_randoms:
  "i < particleCount p \<Longrightarrow>
   randoms (fst (build_buffers p rng)) ! i = fround (rng !! (2 * i + 1))"
  by (simp add: build_buffers_def layout_loop_randoms)

lemma mount_arrays [simp]:
  "array (position (geom (mount p rng))) = positions (fst (build_buffers p rng))"
  "array (normalVec (geom (mount p rng))) = normals (fst (build_buffers p rng))"
  "array (aRandom (geom (mount p rng))) = randoms (fst (build_buffers p rng))"
  by (simp_all add: mount_def Let_def BufferAttribute_def)

lemma allocated_mount: "allocated p (mount p rng)"
  by (simp add: allocated_def) (simp add: mount_def Let_def BufferAttribute_def)

lemma animate_fixed [simp]:
  "normalVec (geom (animate p t s)) = normalVec (geom s)"
  "aRandom (geom (animate p t s)) = aRandom (geom s)"
  "count (position (geom (animate p t s))) = count (position (geom s))"
  "length (array (position (geom (animate p t s)))) = length (array (position (geom s)))"
  "runningRef (animate p t s) = runningRef s"
  "running (animate p t s) = running s"
  "readyInfo (animate p t s) = readyInfo s"
  by (simp_all add: animate_def update_positions_def Let_def)

lemma animate_paused: "\<not> runningRef s \<Longrightarrow> geom (animate p t s) = geom s"
  by (simp add: animate_def)

lemma animate_pointsRef:
  "pointsRef (animate p t s) = rotate_cloud p t (pointsRef s)"
  by (simp add: animate_def Let_def)

lemma animate_running_vec3:
  assumes "runningRef s" and "length (array (position (geom s))) = particleCount p * 3"
    and "i < particleCount p"
  shows "vec3 (array (position (geom (animate p t s)))) i =
           scale3 (point_radius p (array (aRandom (geom s))) t i + point_noise (array (aRandom (geom s))) t i)
             (vec3 (array (normalVec (geom s))) i)"
  using assms by (simp add: animate_def update_positions_def Let_def animate_loop_vec3)

lemma step_fixed [simp]:
  "normalVec (geom (step p s e)) = normalVec (geom s)"
  "aRandom (geom (step p s e)) = aRandom (geom s)"
  "count (position (geom (step p s e))) = count (position (geom s))"
  "length (array (position (geom (step p s e)))) = length (array (position (geom s)))"
  by (cases e; simp add: toggleRunning_def publish_ready_def)+

lemma step_pointsRef: "pointsRef s \<noteq> None \<Longrightarrow> pointsRef (step p s e) \<noteq> None"
  by (cases e) (auto simp: toggleRunning_def publish_ready_def animate_pointsRef rotate_cloud_def)

lemma allocated_step: "allocated p s \<Longrightarrow> allocated p (step p s e)"
  by (simp add: allocated_def step_pointsRef)

lemma run_snoc: "run p rng (evs @ [e]) = step p (run p rng evs) e"
  by (simp add: run_def)

lemma run_Nil: "run p rng [] = mount p rng"
  by (simp add: run_def)

lemma allocated_run: "allocated p (run p rng evs)"
  by (induction evs rule: rev_induct) (simp_all add: run_snoc run_Nil allocated_mount allocated_step)

lemma run_fixed:
  "normalVec (geom (run p rng evs)) = normalVec (geom (mount p rng))"
  "aRandom (geom (run p rng evs)) = aRandom (geom (mount p rng))"
  by (induction evs rule: rev_induct) (simp_all add: run_snoc run_Nil)

section \<open>Facts about the layout and the draws\<close>

lemma norm3_layout_normal: "norm3 (layout_normal p i) = 1"
proof -
  have factor: "(a * c)\<^sup>2 + (a * s)\<^sup>2 + b\<^sup>2 = a\<^sup>2 * (c\<^sup>2 + s\<^sup>2) + b\<^sup>2" for a b c s :: real
    by (simp add: power_mult_distrib distrib_left)
  have "(sin (layout_phi p i) * cos (layout_theta i))\<^sup>2 +
        (sin (layout_phi p i) * sin (layout_theta i))\<^sup>2 + (cos (layout_phi p i))\<^sup>2 =
        (sin (layout_phi p i))\<^sup>2 * ((cos (layout_theta i))\<^sup>2 + (sin (layout_theta i))\<^sup>2) +
        (cos (layout_phi p i))\<^sup>2"
    by (rule factor)
  also have "\<dots> = (sin (layout_phi p i))\<^sup>2 + (cos (layout_phi p i))\<^sup>2"
    by (simp only: sin_cos_squared_add2 mult_1_right)
  also have "\<dots> = 1"
    by simp
  finally show ?thesis
    by (simp add: norm3_def layout_normal_def)
qed

lemma norm3_scale3: "norm3 (scale3 k v) = \<bar>k\<bar> * norm3 v"
proof (cases v)
  case (fields x y z)
  have "(k * x)\<^sup>2 + (k * y)\<^sup>2 + (k * z)\<^sup>2 = k\<^sup>2 * (x\<^sup>2 + y\<^sup>2 + z\<^sup>2)"
    by (simp add: power_mult_distrib distrib_left)
  then show ?thesis
    using fields by (simp add: norm3_def scale3_def real_sqrt_mult)
qed

lemma mount_count [simp]:
  "count (position (geom (mount p rng))) = particleCount p"
  "count (normalVec (geom (mount p rng))) = particleCount p"
  "count (aRandom (geom (mount p rng))) = particleCount p"
  by (simp_all add: mount_def Let_def BufferAttribute_def)

lemma run_random_draw:
  assumes "i < particleCount p"
  shows "array (aRandom (geom (run p rng evs))) ! i = fround (rng !! (2 * i + 1))"
  using assms by (simp add: run_fixed build_buffers_randoms)

lemma run_normal:
  assumes "i < particleCount p"
  shows "vec3 (array (normalVec (geom (run p rng evs)))) i = layout_normal p i"
  using assms by (simp add: run_fixed build_buffers_normals)

lemma scale_factor_bounds:
  assumes "0 \<le> x" and "x \<le> 1"
  shows "0.2 \<le> x * 0.8 + 0.2" and "x * 0.8 + 0.2 \<le> (1::real)"
  using assms by simp_all

lemma draw_bounds:
  assumes "sset rng \<subseteq> {0..<1::real}"
  shows "0 \<le> rng !! n" and "rng !! n < 1"
proof -
  have "rng !! n \<in> sset rng"
    by simp
  with assms have "rng !! n \<in> {0..<1}"
    by blast
  then show "0 \<le> rng !! n" and "rng !! n < 1"
    by simp_all
qed

section \<open>Facts about sessions\<close>

lemma run_running_sync: "runningRef (run p rng evs) = running (run p rng evs)"
proof (induction evs rule: rev_induct)
  case Nil
  show ?case
    by (simp add: run_Nil mount_def Let_def)
next
  case (snoc e evs)
  then show ?case
    by (cases e) (simp_all add: run_snoc toggleRunning_def publish_ready_def)
qed

lemma run_pointsRef: "\<exists>pts. pointsRef (run p rng evs) = Some pts"
  using allocated_run [of p rng evs] by (auto simp: allocated_def)

lemma rotate_cloud_Some:
  "rotate_cloud p t (Some pts) =
     Some \<lparr>rotation_x = t * rotationSpeed p * 0.18, rotation_y = t * rotationSpeed p\<rparr>"
  by (cases pts) (simp add: rotate_cloud_def)

lemma quickCheck_animate [simp]: "quickCheck (animate p t s) = quickCheck s"
  by (simp add: quickCheck_def)

lemma quickCheck_toggleRunning [simp]: "quickCheck (toggleRunning s) = quickCheck s"
  by (simp add: quickCheck_def toggleRunning_def)

lemma quickCheck_publish_ready:
  "allocated p s \<Longrightarrow>
   quickCheck (publish_ready p s) = Report (particleCount p) (Some (particleCount p)) True True"
  by (auto simp: quickCheck_def publish_ready_def allocated_def Let_def)

lemma quickCheck_run:
  "quickCheck (run p rng evs) =
     (if Ready \<in> set evs then Report (particleCount p) (Some (particleCount p)) True True
      else NotReady)"
proof (induction evs rule: rev_induct)
  case Nil
  show ?case
    by (simp add: run_Nil quickCheck_def mount_def Let_def)
next
  case (snoc e evs)
  then show ?case
    by (cases e) (simp_all add: run_snoc quickCheck_publish_ready allocated_run)
qed

text \<open>
  The self-check looks at \<^verbatim>\<open>readyInfo\<close> alone, and its third value is the comparison
  of the count it found with the particle count it was given.
\<close>

lemma quickCheck_compares:
  assumes "readyInfo s = Some info" and "ri_geometry info = Some g"
  shows "quickCheck s =
           Report (ri_particleCount info) (Some (count (position g)))
             (count (position g) = ri_particleCount info) (ri_points info \<noteq> None)"
  using assms by (simp add: quickCheck_def Let_def)

lemma quickCheck_cleanup [simp]: "quickCheck (cleanup s) = quickCheck s"
  by (simp add: quickCheck_def cleanup_def)

lemma quickCheck_reactivate [simp]: "quickCheck (reactivate p rng s) = quickCheck s"
  by (simp add: quickCheck_def reactivate_def Let_def)

text \<open>The effect run again differs from its first run in the component's state only.\<close>

lemma reactivate_mount:
  "reactivate p rng s =
     (mount p rng)\<lparr>runningRef := runningRef s, running := running s, readyInfo := readyInfo s\<rparr>"
  by (simp add: reactivate_def mount_def Let_def)

lemma allocated_reactivate: "allocated p (reactivate p rng s)"
  by (simp add: allocated_def reactivate_def Let_def BufferAttribute_def)

lemma distance_after_running_frame:
  assumes "runningRef (run p rng evs)" and "i < particleCount p"
  shows "norm3 (vec3 (array (position (geom (animate p t (run p rng evs))))) i) =
           \<bar>point_radius p (array (aRandom (geom (run p rng evs)))) t i +
            point_noise (array (aRandom (geom (run p rng evs)))) t i\<bar>"
proof -
  have len: "length (array (position (geom (run p rng evs)))) = particleCount p * 3"
    using allocated_run [of p rng evs] by (simp add: allocated_def)
  show ?thesis
    by (simp add: animate_running_vec3 [OF assms(1) len assms(2)] norm3_scale3
        run_normal [OF assms(2)] norm3_layout_normal)
qed

lemma local_pulse_bound:
  fixes A r x :: real
  assumes "0 \<le> A" and "0.2 \<le> r" and "r \<le> 1"
  shows "\<bar>sin x * A * r\<bar> \<le> A"
proof -
  have "\<bar>sin x * A * r\<bar> = \<bar>sin x\<bar> * (A * r)"
    using assms by (simp add: abs_mult)
  also have "\<dots> \<le> 1 * (A * r)"
    using assms by (intro mult_right_mono) simp_all
  also have "\<dots> \<le> A * 1"
    using assms by (simp add: mult_left_le)
  finally show ?thesis
    by simp
qed

lemma noise_bound: "\<bar>point_noise rnd t i\<bar> \<le> 0.005"
proof -
  have "\<bar>point_noise rnd t i\<bar> = \<bar>sin (t * (0.7 + scale_factor rnd i * 2.0) + real i)\<bar> * 0.005"
    by (simp add: point_noise_def abs_mult)
  also have "\<dots> \<le> 1 * 0.005"
    by (intro mult_right_mono) simp_all
  finally show ?thesis
    by simp
qed

section \<open>The distance from the origin in exact arithmetic\<close>

text \<open>
  With exact coordinates, a running frame of a first activation with
  \<open>pulseAmplitude \<ge> 0\<close> and \<open>baseRadius \<ge> 0\<close> puts every particle at a distance
  from the origin in
  \<open>[baseRadius - pulseAmplitude - 0.005, baseRadius + pulseAmplitude + 0.005]\<close>. This
  is a fact about the exact scalar on the exact unit normal. The program's cells hold
  each coordinate rounded to single precision, and the ends of the interval leave no
  room for that rounding, so it is no statement about the cells.
\<close>

lemma exact_distance_bound:
  assumes "sset rng \<subseteq> {0..<1}" and "0 \<le> pulseAmplitude p" and "0 \<le> baseRadius p"
    and "runningRef (run p rng evs)" and "i < particleCount p"
  shows "norm3 (vec3 (array (position (geom (animate p t (run p rng evs))))) i)
           \<in> {baseRadius p - pulseAmplitude p - 0.005 .. baseRadius p + pulseAmplitude p + 0.005}"
proof -
  let ?rnd = "array (aRandom (geom (run p rng evs)))"
  have r: "0.2 \<le> scale_factor ?rnd i" "scale_factor ?rnd i \<le> 1"
    using scale_factor_bounds [OF fround_unit_interval [OF draw_bounds [OF assms(1), of "2 * i + 1"]]]
    by (simp_all add: scale_factor_def run_random_draw [OF assms(5)])
  have pulse: "\<bar>sin (t * pulseSpeed p) * pulseAmplitude p * scale_factor ?rnd i\<bar> \<le> pulseAmplitude p"
    using assms(2) r by (rule local_pulse_bound)
  have nz: "\<bar>point_noise ?rnd t i\<bar> \<le> 0.005"
    by (rule noise_bound)
  from pulse nz assms(3) have
    "\<bar>point_radius p ?rnd t i + point_noise ?rnd t i\<bar>
       \<in> {baseRadius p - pulseAmplitude p - 0.005 .. baseRadius p + pulseAmplitude p + 0.005}"
    unfolding point_radius_def by simp linarith
  then show ?thesis
    by (simp only: distance_after_running_frame [OF assms(4) assms(5)])
qed

section \<open>The claims\<close>

text \<open>
  Claim C1. For every particle index \<open>i\<close>, at construction (no event yet) and after
  any sequence of frames at any elapsed times, pause toggles and the readiness callback,
  the position of \<open>i\<close> is a scalar multiple of its normal: the point stays on the ray
  of its normal.
\<close>

theorem position_on_normal_ray:
  assumes "i < particleCount p"
  shows "\<exists>k. vec3 (array (position (geom (run p rng evs)))) i =
              scale3 k (vec3 (array (normalVec (geom (run p rng evs)))) i)"
proof (induction evs rule: rev_induct)
  case Nil
  from assms show ?case
    by (auto simp: run_Nil build_buffers_positions build_buffers_normals)
next
  case (snoc e evs)
  let ?s = "run p rng evs"
  have len: "length (array (position (geom ?s))) = particleCount p * 3"
    using allocated_run [of p rng evs] by (simp add: allocated_def)
  show ?case
  proof (cases e)
    case (Frame t)
    show ?thesis
    proof (cases "runningRef ?s")
      case True
      from animate_running_vec3 [OF True len assms] show ?thesis
        by (auto simp: run_snoc Frame)
    next
      case False
      with snoc show ?thesis
        by (simp add: run_snoc Frame animate_paused)
    qed
  next
    case Toggle
    with snoc show ?thesis
      by (simp add: run_snoc toggleRunning_def)
  next
    case Ready
    with snoc show ?thesis
      by (simp add: run_snoc publish_ready_def)
  qed
qed

theorem position_on_normal_ray_witness:
  "(0::nat) < particleCount default_props \<and>
   (\<exists>k. vec3 (array (position (geom (run default_props (sconst 0) [Frame 1, Toggle, Frame 2])))) 0 =
      scale3 k (vec3 (array (normalVec (geom (run default_props (sconst 0) [Frame 1, Toggle, Frame 2])))) 0))"
proof -
  have h: "(0::nat) < particleCount default_props"
    by (simp add: default_props_def)
  from h position_on_normal_ray [OF h] show ?thesis
    by blast
qed

text \<open>
  Claim C2. In a frame at elapsed time \<open>t\<close> taken while \<^verbatim>\<open>runningRef\<close> is true,
  the position of every index \<open>i\<close> becomes \<open>normal[i] * (baseRadius + pulse * r + noise)\<close>
  with \<open>pulse = sin (t * pulseSpeed) * pulseAmplitude\<close>,
  \<open>r = jitterFactor[i] * 0.8 + 0.2\<close>, which lies in \<open>[0.2, 1.0]\<close> when the generator's
  draws lie in \<open>[0, 1)\<close>, and \<open>noise = sin (t * (0.7 + r * 2.0) + i) * 0.005\<close>.
\<close>

theorem running_frame_formula:
  assumes "sset rng \<subseteq> {0..<1}" and "runningRef (run p rng evs)" and "i < particleCount p"
  shows "let s = run p rng evs;
             s' = animate p t s;
             pulse = sin (t * pulseSpeed p) * pulseAmplitude p;
             r = array (aRandom (geom s)) ! i * 0.8 + 0.2;
             noise = sin (t * (0.7 + r * 2.0) + real i) * 0.005
         in vec3 (array (position (geom s'))) i =
              scale3 (baseRadius p + pulse * r + noise) (vec3 (array (normalVec (geom s'))) i) \<and>
            0.2 \<le> r \<and> r \<le> 1.0"
proof -
  let ?s = "run p rng evs"
  have len: "length (array (position (geom ?s))) = particleCount p * 3"
    using allocated_run [of p rng evs] by (simp add: allocated_def)
  have r: "0.2 \<le> array (aRandom (geom ?s)) ! i * 0.8 + 0.2"
    "array (aRandom (geom ?s)) ! i * 0.8 + 0.2 \<le> 1"
    using scale_factor_bounds [OF fround_unit_interval [OF draw_bounds [OF assms(1), of "2 * i + 1"]]]
    by (simp_all add: run_random_draw [OF assms(3)])
  from animate_running_vec3 [OF assms(2) len assms(3), of t] r show ?thesis
    by (simp add: Let_def point_radius_def point_noise_def scale_factor_def)
qed

theorem running_frame_formula_witness:
  "sset (sconst (1 / 2)) \<subseteq> {0..<1::real} \<and> runningRef (run default_props (sconst (1 / 2)) []) \<and>
   (0::nat) < particleCount default_props \<and>
   (let s = run default_props (sconst (1 / 2)) [];
        s' = animate default_props 0 s;
        pulse = sin (0 * pulseSpeed default_props) * pulseAmplitude default_props;
        r = array (aRandom (geom s)) ! 0 * 0.8 + 0.2;
        noise = sin (0 * (0.7 + r * 2.0) + real (0::nat)) * 0.005
    in vec3 (array (position (geom s'))) 0 =
         scale3 (baseRadius default_props + pulse * r + noise) (vec3 (array (normalVec (geom s'))) 0) \<and>
       0.2 \<le> r \<and> r \<le> 1.0)"
proof -
  have h1: "sset (sconst (1 / 2)) \<subseteq> {0..<1::real}"
    by simp
  have h2: "runningRef (run default_props (sconst (1 / 2)) [])"
    by (simp add: run_Nil mount_def Let_def)
  have h3: "(0::nat) < particleCount default_props"
    by (simp add: default_props_def)
  from h1 h2 h3 running_frame_formula [OF h1 h2 h3, of 0] show ?thesis
    by simp
qed

text \<open>
  Claim C3. For every particle count \<open>N\<close> the layout produces exactly \<open>N\<close> entries in
  each of position, normal (three numbers per entry) and jitter factor (one number per
  entry), empty arrays when \<open>N = 0\<close>, and every normal has length 1.
\<close>

theorem layout_counts_and_unit_normals:
  "length (positions (fst (build_buffers p rng))) = particleCount p * 3 \<and>
   length (normals (fst (build_buffers p rng))) = particleCount p * 3 \<and>
   length (randoms (fst (build_buffers p rng))) = particleCount p \<and>
   count (position (geom (mount p rng))) = particleCount p \<and>
   count (normalVec (geom (mount p rng))) = particleCount p \<and>
   count (aRandom (geom (mount p rng))) = particleCount p \<and>
   (particleCount p = 0 \<longrightarrow>
      positions (fst (build_buffers p rng)) = [] \<and> normals (fst (build_buffers p rng)) = [] \<and>
      randoms (fst (build_buffers p rng)) = []) \<and>
   (\<forall>i < particleCount p. norm3 (vec3 (normals (fst (build_buffers p rng))) i) = 1)"
proof -
  have "positions (fst (build_buffers p rng)) = [] \<and> normals (fst (build_buffers p rng)) = [] \<and>
      randoms (fst (build_buffers p rng)) = []" if "particleCount p = 0"
    unfolding length_0_conv [symmetric] by (simp add: that)
  then show ?thesis 
    by (simp add: build_buffers_normals norm3_layout_normal)
qed

theorem layout_counts_and_unit_normals_witness:
  "particleCount (default_props\<lparr>particleCount := 0\<rparr>) = 0 \<and>
   positions (fst (build_buffers (default_props\<lparr>particleCount := 0\<rparr>) (sconst 0))) = [] \<and>
   (0::nat) < particleCount default_props \<and>
   norm3 (vec3 (normals (fst (build_buffers default_props (sconst 0)))) 0) = 1"
  using layout_counts_and_unit_normals [of "default_props\<lparr>particleCount := 0\<rparr>" "sconst 0"]
    layout_counts_and_unit_normals [of default_props "sconst 0"]
  by (simp add: default_props_def)

text \<open>
  Claim C4, amended. For every index \<open>i\<close> below \<open>N\<close> the generator leaves in the arrays
  \<open>normal[i] = (sin phi * cos theta, sin phi * sin theta, cos phi)\<close> for
  \<open>phi = acos (1 - 2 * (i + 0.5) / N)\<close> and \<open>theta = pi * (1 + sqrt 5) * (i + 0.5)\<close>,
  \<open>position[i] = normal[i] * (R + jitter)\<close> where the jitter comes from one draw of the
  generator and lies in \<open>[-0.01, 0.01)\<close>, and as \<open>jitterFactor[i]\<close> another draw of its
  own, rounded to single precision by the store: a value in \<open>[0, 1]\<close>, which can be 1.
  The draws lie in \<open>[0, 1)\<close> by the contract of \<^verbatim>\<open>Math.random\<close>.
\<close>

theorem layout_entry_formula:
  assumes "sset rng \<subseteq> {0..<1}" and "i < particleCount p"
  shows "let b = fst (build_buffers p rng);
             phi = arccos (1 - 2 * (real i + 0.5) / real (particleCount p));
             theta = pi * (1 + sqrt 5) * (real i + 0.5);
             jitter = (rng !! (2 * i) - 0.5) * 0.02
         in vec3 (normals b) i = (sin phi * cos theta, sin phi * sin theta, cos phi) \<and>
            vec3 (positions b) i = scale3 (baseRadius p + jitter) (vec3 (normals b) i) \<and>
            - 0.01 \<le> jitter \<and> jitter < 0.01 \<and>
            randoms b ! i = fround (rng !! (2 * i + 1)) \<and>
            0 \<le> randoms b ! i \<and> randoms b ! i \<le> 1"
proof -
  have j: "- 0.01 \<le> (rng !! (2 * i) - 0.5) * 0.02" "(rng !! (2 * i) - 0.5) * 0.02 < 0.01"
    using draw_bounds [OF assms(1), of "2 * i"] by simp_all
  from assms(2) j fround_unit_interval [OF draw_bounds [OF assms(1), of "2 * i + 1"]]
  show ?thesis
    by (simp add: Let_def build_buffers_normals build_buffers_positions build_buffers_randoms
        layout_jitter_def)
      (simp add: layout_normal_def layout_phi_def layout_theta_def)
qed

theorem layout_entry_formula_witness:
  "sset (sconst (1 / 2)) \<subseteq> {0..<1::real} \<and> (1::nat) < particleCount default_props \<and>
   randoms (fst (build_buffers default_props (sconst (1 / 2)))) ! 1 = 1 / 2 \<and>
   vec3 (positions (fst (build_buffers default_props (sconst (1 / 2))))) 1 =
     scale3 5 (vec3 (normals (fst (build_buffers default_props (sconst (1 / 2))))) 1)"
proof -
  have h1: "sset (sconst (1 / 2)) \<subseteq> {0..<1::real}"
    by simp
  have h2: "(1::nat) < particleCount default_props"
    by (simp add: default_props_def)
  from h1 h2 layout_entry_formula [OF h1 h2] show ?thesis
    by (simp add: Let_def default_props_def fround_half)
qed

text \<open>
  The claim as it stands has the jitter factor itself in \<open>[0, 1)\<close>. The draw
  \<open>1 - 2 ^ (- 26)\<close> is a double below 1, and the cell it is stored in holds 1.
\<close>

theorem stored_jitter_factor_counterexample:
  "sset (sconst (1 - 1 / 2 ^ 26)) \<subseteq> {0..<1::real} \<and>
   (0::nat) < particleCount default_props \<and>
   sconst (1 - 1 / 2 ^ 26) !! (2 * 0 + 1) < (1::real) \<and>
   randoms (fst (build_buffers default_props (sconst (1 - 1 / 2 ^ 26)))) ! 0 = 1 \<and>
   \<not> randoms (fst (build_buffers default_props (sconst (1 - 1 / 2 ^ 26)))) ! 0 < 1"
proof -
  have i: "(0::nat) < particleCount default_props"
    by (simp add: default_props_def)
  have "randoms (fst (build_buffers default_props (sconst (1 - 1 / 2 ^ 26)))) ! 0 =
      fround (1 - 1 / 2 ^ 26)"
    by (simp add: build_buffers_randoms [OF i])
  then have "randoms (fst (build_buffers default_props (sconst (1 - 1 / 2 ^ 26)))) ! 0 = 1"
    by (simp only: fround_near_one)
  with i show ?thesis
    by simp
qed

text \<open>
  Claim C5. A frame taken while running is false leaves the position array as it was,
  for every elapsed time: for any session whose \<^verbatim>\<open>runningRef\<close>, the flag the frame
  reads, is false, and for any mounted session whose state \<^verbatim>\<open>running\<close> is false.
\<close>

theorem paused_frame_keeps_positions:
  "(\<not> runningRef s \<longrightarrow>
      array (position (geom (animate p t s))) = array (position (geom s))) \<and>
   (\<not> running (run p rng evs) \<longrightarrow>
      array (position (geom (animate p t (run p rng evs)))) =
        array (position (geom (run p rng evs))))"
  by (simp add: animate_paused run_running_sync [symmetric])

theorem paused_frame_keeps_positions_witness:
  "\<not> runningRef (toggleRunning (mount default_props (sconst 0))) \<and>
   array (position (geom (animate default_props 1 (toggleRunning (mount default_props (sconst 0)))))) =
     array (position (geom (toggleRunning (mount default_props (sconst 0))))) \<and>
   \<not> running (run default_props (sconst 0) [Frame 1, Toggle]) \<and>
   array (position (geom (animate default_props 2 (run default_props (sconst 0) [Frame 1, Toggle])))) =
     array (position (geom (run default_props (sconst 0) [Frame 1, Toggle])))"
proof -
  have h1: "\<not> runningRef (toggleRunning (mount default_props (sconst 0)))"
    by (simp add: toggleRunning_def mount_def Let_def)
  have h2: "\<not> running (run default_props (sconst 0) [Frame 1, Toggle])"
    by (simp add: run_def toggleRunning_def mount_def Let_def)
  from h1 h2
    paused_frame_keeps_positions [where s = "toggleRunning (mount default_props (sconst 0))"
      and p = default_props and t = 1 and evs = "[]"]
    paused_frame_keeps_positions [where s = "mount default_props (sconst 0)"
      and p = default_props and t = 2 and rng = "sconst 0" and evs = "[Frame 1, Toggle]"]
  show ?thesis
    by simp
qed

text \<open>
  Claim C6. Every frame of a mounted session sets the rotation of the cloud to the
  absolute angles \<open>rotationY = t * rotationSpeed\<close> and
  \<open>rotationX = t * rotationSpeed * 0.18\<close>, whatever the running flag is and whatever
  events came before: the same \<open>t\<close> gives the same angles after any history.
\<close>

theorem rotation_from_elapsed_time:
  "pointsRef (animate p t (run p rng evs)) =
     Some \<lparr>rotation_x = t * rotationSpeed p * 0.18, rotation_y = t * rotationSpeed p\<rparr> \<and>
   pointsRef (animate p t (toggleRunning (run p rng evs))) =
     pointsRef (animate p t (run p rng evs)) \<and>
   pointsRef (animate p t (run p rng' evs')) = pointsRef (animate p t (run p rng evs))"
proof -
  obtain pts where a: "pointsRef (run p rng evs) = Some pts"
    using run_pointsRef by blast
  obtain pts' where b: "pointsRef (run p rng' evs') = Some pts'"
    using run_pointsRef by blast
  from a b show ?thesis
    by (simp add: animate_pointsRef rotate_cloud_Some toggleRunning_def)
qed

text \<open>
  Claim C7. The scalar a running frame puts on the normal of point \<open>i\<close> is the radius
  (base radius plus local pulse) plus the noise; and for a nonzero pulse speed this
  radius, without the noise, has the period \<open>2 * pi / pulseSpeed\<close> in the elapsed
  time, for every point and every time.
\<close>

theorem pulse_radius_periodic:
  "(runningRef (run p rng evs) \<and> i < particleCount p \<longrightarrow>
      vec3 (array (position (geom (animate p t (run p rng evs))))) i =
        scale3 (point_radius p (array (aRandom (geom (run p rng evs)))) t i +
                point_noise (array (aRandom (geom (run p rng evs)))) t i)
          (vec3 (array (normalVec (geom (run p rng evs)))) i)) \<and>
   (pulseSpeed p \<noteq> 0 \<longrightarrow>
      point_radius p rnd (t + 2 * pi / pulseSpeed p) i = point_radius p rnd t i)"
proof -
  have len: "length (array (position (geom (run p rng evs)))) = particleCount p * 3"
    using allocated_run [of p rng evs] by (simp add: allocated_def)
  have "point_radius p rnd (t + 2 * pi / pulseSpeed p) i = point_radius p rnd t i"
    if "pulseSpeed p \<noteq> 0"
  proof -
    from that have "(t + 2 * pi / pulseSpeed p) * pulseSpeed p = t * pulseSpeed p + 2 * pi"
      by (simp add: distrib_right)
    then show ?thesis
      by (simp add: point_radius_def)
  qed
  with len show ?thesis
    by (simp add: animate_running_vec3)
qed

theorem pulse_radius_periodic_witness:
  "runningRef (run default_props (sconst (1 / 2)) [Frame 1]) \<and> (0::nat) < particleCount default_props \<and>
   pulseSpeed default_props \<noteq> 0 \<and>
   vec3 (array (position (geom (animate default_props 3 (run default_props (sconst (1 / 2)) [Frame 1]))))) 0 =
     scale3 (point_radius default_props (array (aRandom (geom (run default_props (sconst (1 / 2)) [Frame 1])))) 3 0 +
             point_noise (array (aRandom (geom (run default_props (sconst (1 / 2)) [Frame 1])))) 3 0)
       (vec3 (array (normalVec (geom (run default_props (sconst (1 / 2)) [Frame 1])))) 0) \<and>
   point_radius default_props [1 / 2] (3 + 2 * pi / pulseSpeed default_props) 0 =
     point_radius default_props [1 / 2] 3 0"
proof -
  have h1: "runningRef (run default_props (sconst (1 / 2)) [Frame 1])"
    by (simp add: run_def mount_def Let_def)
  have h2: "(0::nat) < particleCount default_props" and h3: "pulseSpeed default_props \<noteq> 0"
    by (simp_all add: default_props_def)
  from h1 h2 h3
    pulse_radius_periodic [where p = default_props and rng = "sconst (1 / 2)" and evs = "[Frame 1]"
      and i = 0 and t = 3 and rnd = "[1 / 2]"]
  show ?thesis
    by simp
qed

text \<open>
  Claim C8. After the readiness callback of an activation with
  \<^verbatim>\<open>particleCount = 2000\<close> the self-check reports a position count of 2000, that the
  counts match, and that the points object is present; before the callback of the first
  activation it gives the not-ready alert. But \<^verbatim>\<open>readyInfo\<close> outlives an activation:
  when a property changes (here the particle count, to 3000) and the self-check runs
  before the callback of the new activation, it does not give the not-ready alert. It
  reports the counts of the activation before, 2000, while the position attribute of
  the live geometry counts 3000 entries; only the new callback brings the report up to
  date.
\<close>

theorem stale_self_check_after_prop_change:
  "quickCheck (run default_props (sconst 0) [Frame 0]) = NotReady \<and>
   quickCheck (run default_props (sconst 0) [Frame 0, Ready]) =
     Report 2000 (Some 2000) True True \<and>
   quickCheck (reactivate (default_props\<lparr>particleCount := 3000\<rparr>) (sconst 0)
       (cleanup (run default_props (sconst 0) [Frame 0, Ready]))) =
     Report 2000 (Some 2000) True True \<and>
   count (position (geom (reactivate (default_props\<lparr>particleCount := 3000\<rparr>) (sconst 0)
       (cleanup (run default_props (sconst 0) [Frame 0, Ready]))))) = 3000 \<and>
   quickCheck (publish_ready (default_props\<lparr>particleCount := 3000\<rparr>)
       (reactivate (default_props\<lparr>particleCount := 3000\<rparr>) (sconst 0)
         (cleanup (run default_props (sconst 0) [Frame 0, Ready])))) =
     Report 3000 (Some 3000) True True"
proof -
  let ?p = "default_props\<lparr>particleCount := 3000\<rparr>"
  let ?s = "run default_props (sconst 0) [Frame 0, Ready]"
  have n: "particleCount default_props = 2000" "particleCount ?p = 3000"
    by (simp_all add: default_props_def)
  have first: "quickCheck (run default_props (sconst 0) [Frame 0]) = NotReady"
    by (simp add: quickCheck_run)
  have ready: "quickCheck ?s = Report 2000 (Some 2000) True True"
    by (simp add: quickCheck_run n)
  have stale: "quickCheck (reactivate ?p (sconst 0) (cleanup ?s)) = quickCheck ?s"
    by simp
  have live: "count (position (geom (reactivate ?p (sconst 0) (cleanup ?s)))) = 3000"
    using allocated_reactivate [of ?p "sconst 0" "cleanup ?s"] by (simp add: allocated_def n)
  have fresh: "quickCheck (publish_ready ?p (reactivate ?p (sconst 0) (cleanup ?s))) =
      Report 3000 (Some 3000) True True"
    by (simp add: quickCheck_publish_ready allocated_reactivate n)
  from first ready stale live fresh show ?thesis
    by (simp only: simp_thms)
qed

text \<open>
  Claim C9. A frame leaves the normal and the jitter-factor attributes as they are, so
  in a mounted session they stay as the layout set them; and the positions after a
  running frame depend only on the elapsed time, the normals, the jitter factors and
  the properties: two sessions that agree on these get the same position array, whatever
  their positions were, and so do two histories of the same mounted component.
\<close>

theorem frame_update_writes_positions_only:
  "normalVec (geom (animate p t s)) = normalVec (geom s) \<and>
   aRandom (geom (animate p t s)) = aRandom (geom s) \<and>
   normalVec (geom (run p rng evs)) = normalVec (geom (mount p rng)) \<and>
   aRandom (geom (run p rng evs)) = aRandom (geom (mount p rng)) \<and>
   (runningRef s \<and> runningRef s' \<and>
    length (array (position (geom s))) = particleCount p * 3 \<and>
    length (array (position (geom s'))) = particleCount p * 3 \<and>
    array (normalVec (geom s)) = array (normalVec (geom s')) \<and>
    array (aRandom (geom s)) = array (aRandom (geom s')) \<longrightarrow>
    array (position (geom (animate p t s))) = array (position (geom (animate p t s')))) \<and>
   (runningRef (run p rng evs) \<and> runningRef (run p rng evs') \<longrightarrow>
    array (position (geom (animate p t (run p rng evs)))) =
      array (position (geom (animate p t (run p rng evs')))))"
proof -
  have pure: "array (position (geom (animate p t s))) = array (position (geom (animate p t s')))"
    if "runningRef s" "runningRef s'"
      and "length (array (position (geom s))) = particleCount p * 3"
      and "length (array (position (geom s'))) = particleCount p * 3"
      and "array (normalVec (geom s)) = array (normalVec (geom s'))"
      and "array (aRandom (geom s)) = array (aRandom (geom s'))"
    for s s'
  proof (rule vec3_ext [where n = "particleCount p"])
    show "length (array (position (geom (animate p t s)))) = particleCount p * 3"
      using that(3) by simp
    show "length (array (position (geom (animate p t s')))) = particleCount p * 3"
      using that(4) by simp
    fix j
    assume "j < particleCount p"
    then show "vec3 (array (position (geom (animate p t s)))) j =
        vec3 (array (position (geom (animate p t s')))) j"
      using that by (simp add: animate_running_vec3)
  qed
  have len: "length (array (position (geom (run p rng es)))) = particleCount p * 3" for es
    using allocated_run [of p rng es] by (simp add: allocated_def)
  have "array (position (geom (animate p t (run p rng evs)))) =
      array (position (geom (animate p t (run p rng evs'))))"
    if "runningRef (run p rng evs)" "runningRef (run p rng evs')"
    using that by (intro pure len) (simp_all add: run_fixed)
  with pure [of s s'] show ?thesis
    by (simp add: run_fixed)
qed

theorem frame_update_writes_positions_only_witness:
  "runningRef (mount default_props (sconst 0)) \<and>
   runningRef (animate default_props 7 (mount default_props (sconst 0))) \<and>
   length (array (position (geom (mount default_props (sconst 0))))) = particleCount default_props * 3 \<and>
   array (position (geom (animate default_props 1 (mount default_props (sconst 0))))) =
     array (position (geom (animate default_props 1 (animate default_props 7 (mount default_props (sconst 0)))))) \<and>
   runningRef (run default_props (sconst 0) [Frame 7, Toggle, Toggle]) \<and>
   runningRef (run default_props (sconst 0) []) \<and>
   array (position (geom (animate default_props 1 (run default_props (sconst 0) [Frame 7, Toggle, Toggle])))) =
     array (position (geom (animate default_props 1 (run default_props (sconst 0) []))))"
proof -
  have h: "runningRef (mount default_props (sconst 0))"
    by (simp add: mount_def Let_def)
  have h1: "runningRef (run default_props (sconst 0) [Frame 7, Toggle, Toggle])"
    and h2: "runningRef (run default_props (sconst 0) [])"
    by (simp_all add: run_def toggleRunning_def mount_def Let_def)
  from h h1 h2 frame_update_writes_positions_only
    [where p = default_props and t = 1 and s = "mount default_props (sconst 0)"
      and s' = "animate default_props 7 (mount default_props (sconst 0))"
      and rng = "sconst 0" and evs = "[Frame 7, Toggle, Toggle]" and evs' = "[]"]
  show ?thesis
    by simp
qed


end
